theory Spec2Isabelle
  imports Complex_Main "HOL-Library.Multiset"
begin

section \<open>Request values\<close>

text \<open>
  The routes of \<^verbatim>\<open>app.py\<close> read the decoded JSON body of a request. A decoded body is
  a Python value: \<^verbatim>\<open>None\<close>, a bool, an int, a float, a str, a list or a dict. A dict
  is kept as an association list read from the front. Python floats are modelled by
  real numbers: rounding and the non-finite floats are not represented.
\<close>

datatype json =
    JNull
  | JBool bool
  | JInt int
  | JFloat real
  | JStr string
  | JList "json list"
  | JObj "(string \<times> json) list"

type_synonym dict = "(string \<times> json) list"

text \<open>\<^verbatim>\<open>d.get(k, default)\<close>: the default is used only when the key is absent.\<close>

definition dict_get :: "dict \<Rightarrow> string \<Rightarrow> json \<Rightarrow> json" where
  "dict_get d k dflt = (case map_of d k of None \<Rightarrow> dflt | Some v \<Rightarrow> v)"

text \<open>Python truthiness, as used by \<^verbatim>\<open>if not x\<close>.\<close>

fun truthy :: "json \<Rightarrow> bool" where
  "truthy JNull = False"
| "truthy (JBool b) = b"
| "truthy (JInt n) = (n \<noteq> 0)"
| "truthy (JFloat x) = (x \<noteq> 0)"
| "truthy (JStr s) = (s \<noteq> [])"
| "truthy (JList xs) = (xs \<noteq> [])"
| "truthy (JObj d) = (d \<noteq> [])"

subsection \<open>The builtins \<^verbatim>\<open>int\<close>, \<^verbatim>\<open>float\<close> and \<^verbatim>\<open>str.strip\<close>\<close>

text \<open>
  A str is a list of characters with code points below 256. The conversions raise one
  of three exceptions.
\<close>

datatype pyexc = TypeError | ValueError | OverflowError

text \<open>
  \<^verbatim>\<open>str.strip()\<close> removes the characters for which \<^verbatim>\<open>str.isspace\<close> holds: the code
  points 9 to 13, 28 to 32, 133 and 160.
\<close>

definition is_space :: "char \<Rightarrow> bool" where
  "is_space c = (of_char c \<in> {9, 10, 11, 12, 13, 28, 29, 30, 31, 32, 133, 160 :: nat})"

definition strip :: "string \<Rightarrow> string" where
  "strip s = rev (dropWhile is_space (rev (dropWhile is_space s)))"

text \<open>
  \<^verbatim>\<open>int\<close> and \<^verbatim>\<open>float\<close> skip fewer characters around a number: the code points 9 to 13,
  32, 133 and 160, and not the separators 28 to 31.
\<close>

definition is_num_space :: "char \<Rightarrow> bool" where
  "is_num_space c = (of_char c \<in> {9, 10, 11, 12, 13, 32, 133, 160 :: nat})"

definition num_strip :: "string \<Rightarrow> string" where
  "num_strip s = rev (dropWhile is_num_space (rev (dropWhile is_num_space s)))"

definition is_digit :: "char \<Rightarrow> bool" where
  "is_digit c = (48 \<le> (of_char c :: nat) \<and> (of_char c :: nat) \<le> 57)"

definition digit_val :: "char \<Rightarrow> nat" where
  "digit_val c = of_char c - 48"

text \<open>
  A run of decimal digits in which single underscores may separate digits, read from
  the front: the value read so far, the number of digits read and the rest.
\<close>

fun digit_run :: "nat \<Rightarrow> nat \<Rightarrow> string \<Rightarrow> nat \<times> nat \<times> string" where
  "digit_run v n [] = (v, n, [])"
| "digit_run v n (c # cs) =
     (if is_digit c then digit_run (10 * v + digit_val c) (Suc n) cs
      else if c = CHR ''_'' \<and> 0 < n \<and> cs \<noteq> [] \<and> is_digit (hd cs) then digit_run v n cs
      else (v, n, c # cs))"

definition split_sign :: "string \<Rightarrow> bool \<times> string" where
  "split_sign s =
     (case s of
        [] \<Rightarrow> (False, [])
      | c # cs \<Rightarrow> if c = CHR ''-'' then (True, cs) else if c = CHR ''+'' then (False, cs) else (False, s))"

text \<open>
  \<^verbatim>\<open>int(s)\<close> on a str: surrounding whitespace, an optional sign, decimal digits. A
  number of more than 4300 digits is refused with \<^verbatim>\<open>ValueError\<close>, as every other
  malformed text is.
\<close>

definition max_str_digits :: nat where
  "max_str_digits = 4300"

definition str_int :: "string \<Rightarrow> int option" where
  "str_int s =
     (let (neg, body) = split_sign (num_strip s); (v, n, rest) = digit_run 0 0 body
      in if 0 < n \<and> n \<le> max_str_digits \<and> rest = []
         then Some (if neg then - int v else int v) else None)"

text \<open>
  The floats are the finite ones, and a float is the real number it stands for. A
  number rounds to a finite float when its magnitude is below \<open>float_limit\<close>, half an
  ulp above the largest float. \<^verbatim>\<open>float\<close> raises \<^verbatim>\<open>OverflowError\<close> on an int that is not.
\<close>

definition float_limit :: int where
  "float_limit = 2 ^ 1024 - 2 ^ 970"

text \<open>
  \<^verbatim>\<open>float(s)\<close> on a str: surrounding whitespace, an optional sign, digits with an
  optional fraction, an optional exponent. The result is \<open>None\<close> when the text is not a
  number, where \<^verbatim>\<open>float\<close> raises \<^verbatim>\<open>ValueError\<close>, and also when it reads as an infinity
  or a NaN: these are the spellings \<^verbatim>\<open>inf\<close>, \<^verbatim>\<open>infinity\<close> and \<^verbatim>\<open>nan\<close>, and the numbers
  of magnitude \<open>float_limit\<close> or more. \<^verbatim>\<open>float\<close> returns a float for those, and a
  request that carries one as a price has no counterpart here.
\<close>

definition str_float :: "string \<Rightarrow> real option" where
  "str_float s =
     (let (neg, body) = split_sign (num_strip s);
          (iv, ilen, r1) = digit_run 0 0 body;
          (fv, flen, r2) = (case r1 of c # cs \<Rightarrow> if c = CHR ''.'' then digit_run 0 0 cs else (0, 0, r1)
                            | [] \<Rightarrow> (0, 0, r1));
          mant = real iv + real fv / 10 ^ flen;
          finite = (\<lambda>x :: real. if x < of_int float_limit then Some (if neg then - x else x) else None)
      in if ilen + flen = 0 then None
         else (case r2 of
                 [] \<Rightarrow> finite mant
               | e # es \<Rightarrow>
                   if e = CHR ''e'' \<or> e = CHR ''E'' then
                     (let (eneg, ebody) = split_sign es; (ev, elen, r3) = digit_run 0 0 ebody
                      in if 0 < elen \<and> r3 = []
                         then finite (if eneg then mant / 10 ^ ev else mant * 10 ^ ev)
                         else None)
                   else None))"

text \<open>\<^verbatim>\<open>int(x)\<close>: a float is truncated towards zero.\<close>

fun py_int :: "json \<Rightarrow> pyexc + int" where
  "py_int (JInt n) = Inr n"
| "py_int (JBool b) = Inr (if b then 1 else 0)"
| "py_int (JFloat x) = Inr (if 0 \<le> x then \<lfloor>x\<rfloor> else \<lceil>x\<rceil>)"
| "py_int (JStr s) = (case str_int s of None \<Rightarrow> Inl ValueError | Some n \<Rightarrow> Inr n)"
| "py_int JNull = Inl TypeError"
| "py_int (JList xs) = Inl TypeError"
| "py_int (JObj d) = Inl TypeError"

fun py_float :: "json \<Rightarrow> pyexc + real" where
  "py_float (JInt n) = (if \<bar>n\<bar> < float_limit then Inr (of_int n) else Inl OverflowError)"
| "py_float (JBool b) = Inr (if b then 1 else 0)"
| "py_float (JFloat x) = Inr x"
| "py_float (JStr s) = (case str_float s of None \<Rightarrow> Inl ValueError | Some x \<Rightarrow> Inr x)"
| "py_float JNull = Inl TypeError"
| "py_float (JList xs) = Inl TypeError"
| "py_float (JObj d) = Inl TypeError"

text \<open>
  \<^verbatim>\<open>str(x).strip() == ""\<close>: the text of a number, bool, list or dict is never blank,
  that of \<^verbatim>\<open>None\<close> is \<^verbatim>\<open>"None"\<close>.
\<close>

fun str_strip_empty :: "json \<Rightarrow> bool" where
  "str_strip_empty (JStr s) = (strip s = [])"
| "str_strip_empty v = False"

section \<open>Models\<close>

text \<open>
  The four tables. A text column holds the value the request carried, so it has type
  \<^typ>\<open>json\<close>. The \<^verbatim>\<open>created_at\<close> columns are written once by their default and read
  by no route; they are left out. A \<^verbatim>\<open>DateTime\<close> is a count of microseconds.
\<close>

record product =
  p_id :: int
  p_name :: json
  p_cp :: real
  p_sp :: real
  p_mrp :: real
  p_stock :: int

record retailer =
  r_id :: int
  r_shop_name :: json
  r_address :: json
  r_phone :: json

record order =
  o_id :: int
  o_retailer_id :: "int option"
  o_date :: int
  o_grand_total :: real
  o_total_items :: int
  o_status :: string

record order_item =
  oi_id :: int
  oi_order_id :: int
  oi_product_id :: int
  oi_product_name :: json
  oi_cp :: real
  oi_sp :: real
  oi_mrp :: real
  oi_qty :: int
  oi_item_total :: real

text \<open>
  The database: each table is the list of its rows in insertion order. An integer
  column holds a Python int, without the 64-bit bound of the storage engine.
\<close>

record store =
  products :: "product list"
  retailers :: "retailer list"
  orders :: "order list"
  order_items :: "order_item list"

definition empty_store :: store where
  "empty_store = \<lparr>products = [], retailers = [], orders = [], order_items = []\<rparr>"

text \<open>
  The integer primary key given to a new row by the storage engine: one more than the
  largest key of the table, 1 in an empty table.
\<close>

definition next_id :: "int list \<Rightarrow> int" where
  "next_id ids = fold max ids 0 + 1"

text \<open>\<^verbatim>\<open>Model.query.get(k)\<close>: the row with primary key \<open>k\<close>, if any.\<close>

definition get_product :: "store \<Rightarrow> int \<Rightarrow> product option" where
  "get_product s k = find (\<lambda>p. p_id p = k) (products s)"

definition get_retailer :: "store \<Rightarrow> int \<Rightarrow> retailer option" where
  "get_retailer s k = find (\<lambda>r. r_id r = k) (retailers s)"

definition get_order :: "store \<Rightarrow> int \<Rightarrow> order option" where
  "get_order s k = find (\<lambda>ord. o_id ord = k) (orders s)"

text \<open>\<^verbatim>\<open>OrderItem.query.filter_by(order_id=k).all()\<close>\<close>

definition items_of :: "store \<Rightarrow> int \<Rightarrow> order_item list" where
  "items_of s k = filter (\<lambda>it. oi_order_id it = k) (order_items s)"

section \<open>Routes\<close>

text \<open>
  A route takes the store and the request and returns the response with the store
  after the request. A failure response is a value of \<open>error\<close>; each constructor is one
  \<^verbatim>\<open>return jsonify({'ok': False, ...}), code\<close> of the source, carrying what the message
  interpolates. \<open>Unhandled\<close> is an exception that no handler of the route catches.
\<close>

datatype error =
    InvalidNumeric
  | NameRequired
  | InvalidRestockData
  | RestockProductNotFound int
  | ShopNameRequired
  | ItemsRequired
  | RetailerRequired
  | InvalidRetailerFormat
  | InvalidItemData
  | InvalidQty int
  | ProductNotFound int
  | InsufficientStock json int
  | OrderNotFound
  | AlreadyDeleted
  | OrderAlreadyDeleted
  | Unhandled pyexc

fun http_status :: "error \<Rightarrow> nat" where
  "http_status InvalidNumeric = 400"
| "http_status NameRequired = 400"
| "http_status InvalidRestockData = 400"
| "http_status (RestockProductNotFound k) = 404"
| "http_status ShopNameRequired = 400"
| "http_status ItemsRequired = 400"
| "http_status RetailerRequired = 400"
| "http_status InvalidRetailerFormat = 400"
| "http_status InvalidItemData = 400"
| "http_status (InvalidQty k) = 400"
| "http_status (ProductNotFound k) = 404"
| "http_status (InsufficientStock n k) = 409"
| "http_status OrderNotFound = 404"
| "http_status AlreadyDeleted = 400"
| "http_status OrderAlreadyDeleted = 400"
| "http_status (Unhandled e) = 500"

subsection \<open>\<^verbatim>\<open>api_add_product\<close>\<close>

text \<open>The bare \<^verbatim>\<open>except\<close> turns every failed conversion into the same response.\<close>

definition api_add_product :: "store \<Rightarrow> dict \<Rightarrow> (error + int \<times> json) \<times> store" where
  "api_add_product s data =
     (let name = dict_get data ''name'' JNull in
      case py_float (dict_get data ''cp'' (JInt 0)) of
        Inl e \<Rightarrow> (Inl InvalidNumeric, s)
      | Inr cp \<Rightarrow>
      (case py_float (dict_get data ''sp'' (JInt 0)) of
        Inl e \<Rightarrow> (Inl InvalidNumeric, s)
      | Inr sp \<Rightarrow>
      (case py_float (dict_get data ''mrp'' (JInt 0)) of
        Inl e \<Rightarrow> (Inl InvalidNumeric, s)
      | Inr mrp \<Rightarrow>
      (case py_int (dict_get data ''stock'' (JInt 0)) of
        Inl e \<Rightarrow> (Inl InvalidNumeric, s)
      | Inr stock \<Rightarrow>
          if \<not> truthy name then (Inl NameRequired, s)
          else
            (let p = \<lparr>p_id = next_id (map p_id (products s)), p_name = name,
                      p_cp = cp, p_sp = sp, p_mrp = mrp, p_stock = stock\<rparr>
             in (Inr (p_id p, p_name p), s\<lparr>products := products s @ [p]\<rparr>))))))"

subsection \<open>\<^verbatim>\<open>api_update_product_stock\<close>\<close>

text \<open>A write to a field of the row fetched by its primary key.\<close>

definition update_product :: "int \<Rightarrow> (product \<Rightarrow> product) \<Rightarrow> product list \<Rightarrow> product list" where
  "update_product k f ps = map (\<lambda>p. if p_id p = k then f p else p) ps"

text \<open>
  \<^verbatim>\<open>except (TypeError, ValueError)\<close>: these two give the 400 response, any other
  exception leaves the route.
\<close>

definition restock_except :: "pyexc \<Rightarrow> error" where
  "restock_except e = (case e of OverflowError \<Rightarrow> Unhandled OverflowError | _ \<Rightarrow> InvalidRestockData)"

definition api_update_product_stock :: "store \<Rightarrow> dict \<Rightarrow> (error + int) \<times> store" where
  "api_update_product_stock s data =
     (case py_int (dict_get data ''id'' JNull) of
        Inl e \<Rightarrow> (Inl (restock_except e), s)
      | Inr product_id \<Rightarrow>
      (case py_int (dict_get data ''stock_to_add'' (JInt 0)) of
        Inl e \<Rightarrow> (Inl (restock_except e), s)
      | Inr stock_to_add \<Rightarrow>
      (case py_float (dict_get data ''cp'' (JInt 0)) of
        Inl e \<Rightarrow> (Inl (restock_except e), s)
      | Inr new_cp \<Rightarrow>
      (case py_float (dict_get data ''sp'' (JInt 0)) of
        Inl e \<Rightarrow> (Inl (restock_except e), s)
      | Inr new_sp \<Rightarrow>
      (case py_float (dict_get data ''mrp'' (JInt 0)) of
        Inl e \<Rightarrow> (Inl (restock_except e), s)
      | Inr new_mrp \<Rightarrow>
      (case get_product s product_id of
        None \<Rightarrow> (Inl (RestockProductNotFound product_id), s)
      | Some product \<Rightarrow>
          (let priced = update_product product_id
                 (\<lambda>p. p\<lparr>p_cp := new_cp, p_sp := new_sp, p_mrp := new_mrp\<rparr>) (products s);
               stocked = (if 0 < stock_to_add
                          then update_product product_id
                                 (\<lambda>p. p\<lparr>p_stock := p_stock p + stock_to_add\<rparr>) priced
                          else priced)
           in (Inr (if 0 < stock_to_add then p_stock product + stock_to_add else p_stock product),
               s\<lparr>products := stocked\<rparr>))))))))"

subsection \<open>\<^verbatim>\<open>api_add_retailer\<close>\<close>

definition api_add_retailer :: "store \<Rightarrow> dict \<Rightarrow> (error + int \<times> json) \<times> store" where
  "api_add_retailer s data =
     (let shop_name = dict_get data ''shop_name'' JNull;
          address = dict_get data ''address'' (JStr []);
          phone = dict_get data ''phone'' (JStr [])
      in if \<not> truthy shop_name then (Inl ShopNameRequired, s)
         else
           (let r = \<lparr>r_id = next_id (map r_id (retailers s)), r_shop_name = shop_name,
                     r_address = address, r_phone = phone\<rparr>
            in (Inr (r_id r, r_shop_name r), s\<lparr>retailers := retailers s @ [r]\<rparr>)))"

subsection \<open>\<^verbatim>\<open>api_place_order\<close>\<close>

text \<open>
  \<^verbatim>\<open>prods[pid] = (p, qty)\<close> on a Python dict: a key already present keeps its place and
  takes the new value, a new key goes to the end.
\<close>

fun dict_set :: "('k \<times> 'v) list \<Rightarrow> 'k \<Rightarrow> 'v \<Rightarrow> ('k \<times> 'v) list" where
  "dict_set [] k v = [(k, v)]"
| "dict_set ((k', v') # kvs) k v = (if k' = k then (k, v) # kvs else (k', v') # dict_set kvs k v)"

text \<open>
  The two conversions of one line of the payload. A line that is not a dict has no
  \<^verbatim>\<open>get\<close>; the bare \<^verbatim>\<open>except\<close> catches that as well.
\<close>

definition item_fields :: "json \<Rightarrow> error + int \<times> int" where
  "item_fields it =
     (case it of
        JObj d \<Rightarrow>
          (case py_int (dict_get d ''product_id'' JNull) of
             Inl e \<Rightarrow> Inl InvalidItemData
           | Inr pid \<Rightarrow>
               (case py_int (dict_get d ''qty'' (JInt 0)) of
                  Inl e \<Rightarrow> Inl InvalidItemData
                | Inr qty \<Rightarrow> Inr (pid, qty)))
      | _ \<Rightarrow> Inl InvalidItemData)"

text \<open>
  The first loop: validate every line against the store and accumulate
  \<^verbatim>\<open>grand_total\<close>, \<^verbatim>\<open>total_items\<close> and \<^verbatim>\<open>prods\<close>. It reads the store and writes nothing.
\<close>

fun validate_items ::
  "store \<Rightarrow> json list \<Rightarrow> real \<Rightarrow> int \<Rightarrow> (int \<times> product \<times> int) list
     \<Rightarrow> error + real \<times> int \<times> (int \<times> product \<times> int) list" where
  "validate_items s [] grand_total total_items prods = Inr (grand_total, total_items, prods)"
| "validate_items s (it # rest) grand_total total_items prods =
     (case item_fields it of
        Inl e \<Rightarrow> Inl e
      | Inr (pid, qty) \<Rightarrow>
          if qty \<le> 0 then Inl (InvalidQty pid)
          else
            (case get_product s pid of
               None \<Rightarrow> Inl (ProductNotFound pid)
             | Some p \<Rightarrow>
                 if p_stock p < qty then Inl (InsufficientStock (p_name p) (p_stock p))
                 else validate_items s rest (grand_total + p_sp p * of_int qty) (total_items + qty)
                        (dict_set prods pid (p, qty))))"

text \<open>
  The second loop. \<open>p\<close> is the row object fetched in the first loop, so
  \<^verbatim>\<open>p.stock -= qty\<close> writes the row with key \<^verbatim>\<open>p.id\<close>; the other fields of \<open>p\<close> are
  as they were read.
\<close>

fun write_items :: "int \<Rightarrow> (int \<times> product \<times> int) list \<Rightarrow> store \<Rightarrow> store" where
  "write_items order_id [] s = s"
| "write_items order_id ((pid, p, qty) # rest) s =
     write_items order_id rest
       (s\<lparr>products := update_product (p_id p) (\<lambda>r. r\<lparr>p_stock := p_stock r - qty\<rparr>) (products s),
          order_items := order_items s @
            [\<lparr>oi_id = next_id (map oi_id (order_items s)), oi_order_id = order_id,
              oi_product_id = p_id p, oi_product_name = p_name p,
              oi_cp = p_cp p, oi_sp = p_sp p, oi_mrp = p_mrp p,
              oi_qty = qty, oi_item_total = p_sp p * of_int qty\<rparr>]\<rparr>)"

text \<open>
  \<open>now\<close> is the clock reading that the column default of \<^verbatim>\<open>Order.date\<close> takes.
  \<^verbatim>\<open>int(retailer_id_str)\<close> stands in a \<^verbatim>\<open>try\<close> that catches \<^verbatim>\<open>ValueError\<close> only.
\<close>

definition api_place_order :: "store \<Rightarrow> int \<Rightarrow> dict \<Rightarrow> (error + int) \<times> store" where
  "api_place_order s now data =
     (if data = [] then (Inl ItemsRequired, s)
      else
        (case map_of data ''items'' of
           None \<Rightarrow> (Inl ItemsRequired, s)
         | Some items \<Rightarrow>
        (case items of
           JList items_payload \<Rightarrow>
             (let retailer_id_str = dict_get data ''retailer_id'' JNull in
              if \<not> truthy retailer_id_str \<or> str_strip_empty retailer_id_str
              then (Inl RetailerRequired, s)
              else
                (case py_int retailer_id_str of
                   Inl ValueError \<Rightarrow> (Inl InvalidRetailerFormat, s)
                 | Inl TypeError \<Rightarrow> (Inl (Unhandled TypeError), s)
                 | Inl OverflowError \<Rightarrow> (Inl (Unhandled OverflowError), s)
                 | Inr retailer_id \<Rightarrow>
                     (case validate_items s items_payload 0 0 [] of
                        Inl e \<Rightarrow> (Inl e, s)
                      | Inr (grand_total, total_items, prods) \<Rightarrow>
                          (let order = \<lparr>o_id = next_id (map o_id (orders s)),
                                        o_retailer_id = Some retailer_id, o_date = now,
                                        o_grand_total = grand_total, o_total_items = total_items,
                                        o_status = ''pending''\<rparr>
                           in (Inr (o_id order),
                               write_items (o_id order) prods (s\<lparr>orders := orders s @ [order]\<rparr>))))))
         | _ \<Rightarrow> (Inl ItemsRequired, s))))"

subsection \<open>\<^verbatim>\<open>delete_order\<close> and \<^verbatim>\<open>deliver_order\<close>\<close>

definition set_status :: "int \<Rightarrow> string \<Rightarrow> order list \<Rightarrow> order list" where
  "set_status k st os = map (\<lambda>ord. if o_id ord = k then ord\<lparr>o_status := st\<rparr> else ord) os"

text \<open>The restore loop of \<^verbatim>\<open>delete_order\<close>: a line whose product is gone is skipped.\<close>

fun restore_stock :: "order_item list \<Rightarrow> store \<Rightarrow> store" where
  "restore_stock [] s = s"
| "restore_stock (it # items) s =
     restore_stock items
       (case get_product s (oi_product_id it) of
          None \<Rightarrow> s
        | Some p \<Rightarrow>
            s\<lparr>products := update_product (p_id p) (\<lambda>r. r\<lparr>p_stock := p_stock r + oi_qty it\<rparr>)
                             (products s)\<rparr>)"

definition delete_order :: "store \<Rightarrow> int \<Rightarrow> (error + unit) \<times> store" where
  "delete_order s oid =
     (case get_order s oid of
        None \<Rightarrow> (Inl OrderNotFound, s)
      | Some order \<Rightarrow>
          if o_status order = ''deleted'' then (Inl AlreadyDeleted, s)
          else
            (let s' = restore_stock (items_of s oid) s
             in (Inr (), s'\<lparr>orders := set_status oid ''deleted'' (orders s')\<rparr>)))"

definition deliver_order :: "store \<Rightarrow> int \<Rightarrow> (error + unit) \<times> store" where
  "deliver_order s oid =
     (case get_order s oid of
        None \<Rightarrow> (Inl OrderNotFound, s)
      | Some order \<Rightarrow>
          if o_status order = ''deleted'' then (Inl OrderAlreadyDeleted, s)
          else (Inr (), s\<lparr>orders := set_status oid ''delivered'' (orders s)\<rparr>))"

subsection \<open>\<^verbatim>\<open>api_orders\<close> and \<^verbatim>\<open>export_csv\<close>\<close>

text \<open>
  \<^verbatim>\<open>order_by(Order.date.desc())\<close>: latest first; rows of equal date stay in insertion
  order. The responses carry the date as stored; its text form is not modelled.
\<close>

definition by_date_desc :: "order list \<Rightarrow> order list" where
  "by_date_desc os = sort_key (\<lambda>ord. - o_date ord) os"

record item_view =
  iv_product_name :: json
  iv_qty :: int
  iv_sp :: real
  iv_item_total :: real

record order_view =
  ov_id :: int
  ov_date :: int
  ov_retailer_id :: "int option"
  ov_retailer :: json
  ov_grand_total :: real
  ov_total_items :: int
  ov_status :: string
  ov_items :: "item_view list"

definition item_view_of :: "order_item \<Rightarrow> item_view" where
  "item_view_of it =
     \<lparr>iv_product_name = oi_product_name it, iv_qty = oi_qty it, iv_sp = oi_sp it,
      iv_item_total = oi_item_total it\<rparr>"

text \<open>
  \<^verbatim>\<open>Retailer.query.get(o.retailer_id) if o.retailer_id else None\<close>: a retailer id that
  is \<^verbatim>\<open>None\<close> or 0 is not looked up.
\<close>

definition order_view_of :: "store \<Rightarrow> order \<Rightarrow> order_view" where
  "order_view_of s ord =
     (let retailer = (case o_retailer_id ord of
                        None \<Rightarrow> None
                      | Some k \<Rightarrow> if k = 0 then None else get_retailer s k)
      in \<lparr>ov_id = o_id ord, ov_date = o_date ord, ov_retailer_id = o_retailer_id ord,
          ov_retailer = (case retailer of None \<Rightarrow> JNull | Some r \<Rightarrow> r_shop_name r),
          ov_grand_total = o_grand_total ord, ov_total_items = o_total_items ord,
          ov_status = o_status ord,
          ov_items = map item_view_of (items_of s (o_id ord))\<rparr>)"

definition api_orders :: "store \<Rightarrow> order_view list" where
  "api_orders s =
     map (order_view_of s) (by_date_desc (filter (\<lambda>ord. o_status ord \<noteq> ''deleted'') (orders s)))"

text \<open>The rows that \<^verbatim>\<open>export_csv\<close> writes after the header row, one per order item.\<close>

record export_row =
  x_order_id :: int
  x_date :: int
  x_retailer :: json
  x_product :: json
  x_qty :: int
  x_sp :: real
  x_cp :: real
  x_item_total :: real
  x_grand_total :: real
  x_status :: string

definition export_row_of :: "store \<Rightarrow> order \<Rightarrow> order_item \<Rightarrow> export_row" where
  "export_row_of s ord it =
     (let retailer = (case o_retailer_id ord of None \<Rightarrow> None | Some k \<Rightarrow> get_retailer s k)
      in \<lparr>x_order_id = o_id ord, x_date = o_date ord,
          x_retailer = (case retailer of None \<Rightarrow> JStr [] | Some r \<Rightarrow> r_shop_name r),
          x_product = oi_product_name it, x_qty = oi_qty it, x_sp = oi_sp it, x_cp = oi_cp it,
          x_item_total = oi_item_total it, x_grand_total = o_grand_total ord,
          x_status = o_status ord\<rparr>)"

definition export_csv :: "store \<Rightarrow> export_row list" where
  "export_csv s =
     concat (map (\<lambda>ord. map (export_row_of s ord) (items_of s (o_id ord)))
                 (by_date_desc (orders s)))"

section \<open>A small shop\<close>

text \<open>
  The scenario of the specification: one product, Soap with cp 10, sp 15, mrp 20 and
  100 in stock, and one retailer, ABC Store.
\<close>

definition soap_shop :: store where
  "soap_shop =
     \<lparr>products = [\<lparr>p_id = 1, p_name = JStr ''Soap'', p_cp = 10, p_sp = 15, p_mrp = 20,
                    p_stock = 100\<rparr>],
      retailers = [\<lparr>r_id = 1, r_shop_name = JStr ''ABC Store'', r_address = JStr [],
                     r_phone = JStr []\<rparr>],
      orders = [], order_items = []\<rparr>"

text \<open>A line of an order payload.\<close>

definition line :: "int \<Rightarrow> int \<Rightarrow> json" where
  "line pid qty = JObj [(''product_id'', JInt pid), (''qty'', JInt qty)]"

text \<open>An order of ten bars of soap by retailer 1, then delivered or deleted.\<close>

definition order_of_ten :: dict where
  "order_of_ten = [(''retailer_id'', JInt 1), (''items'', JList [line 1 10])]"

definition delivered_shop :: store where
  "delivered_shop = snd (deliver_order (snd (api_place_order soap_shop 5 order_of_ten)) 1)"

definition deleted_shop :: store where
  "deleted_shop = snd (delete_order (snd (api_place_order soap_shop 5 order_of_ten)) 1)"

text \<open>The shop after the deleted order and a second order, of three bars, at time 7.\<close>

definition two_orders_shop :: store where
  "two_orders_shop =
     snd (api_place_order deleted_shop 7 [(''retailer_id'', JInt 1), (''items'', JList [line 1 3])])"

section \<open>Integrity of the tables\<close>

text \<open>
  The foreign key that the schema declares on \<^verbatim>\<open>OrderItem.order_id\<close>: every order item
  belongs to an order of the table.
\<close>

definition order_items_fk :: "store \<Rightarrow> bool" where
  "order_items_fk s = (\<forall>it \<in> set (order_items s). oi_order_id it \<in> set (map o_id (orders s)))"

text \<open>
  The quantity that \<^verbatim>\<open>prods\<close> holds for the product with key \<open>k\<close>, and the quantity
  that a list of order items carries for it.
\<close>

definition held_qty :: "(int \<times> product \<times> int) list \<Rightarrow> int \<Rightarrow> int" where
  "held_qty prods k = sum_list (map (\<lambda>(pid, p, qty). if p_id p = k then qty else 0) prods)"

definition restored_qty :: "order_item list \<Rightarrow> int \<Rightarrow> int" where
  "restored_qty items k = sum_list (map (\<lambda>it. if oi_product_id it = k then oi_qty it else 0) items)"

section \<open>Properties\<close>

lemmas eval_defs = api_place_order_def soap_shop_def line_def dict_get_def item_fields_def
  get_product_def get_order_def get_retailer_def items_of_def next_id_def update_product_def
  set_status_def delete_order_def deliver_order_def api_add_product_def empty_store_def
  api_update_product_stock_def float_limit_def Let_def

subsection \<open>Order placement is all-or-nothing\<close>

text \<open>
  Claim C3. Whenever order placement fails, for whatever reason, the store after the
  request is the store before it: no stock is changed and no order or order item is
  created.
\<close>

theorem place_order_failure_keeps_store:
  "fst (api_place_order s now data) = Inl e \<Longrightarrow> snd (api_place_order s now data) = s"
  by (auto simp: api_place_order_def Let_def
      split: if_splits option.splits json.splits sum.splits pyexc.splits prod.splits)

text \<open>
  A request whose first line is fine and whose second line asks for more than is in
  stock: it fails and the stock of the first line is untouched.
\<close>

theorem place_order_failure_keeps_store_witness:
  "fst (api_place_order soap_shop 5
          [(''retailer_id'', JInt 1), (''items'', JList [line 1 10, line 1 101])])
     = Inl (InsufficientStock (JStr ''Soap'') 100)
   \<and> snd (api_place_order soap_shop 5
          [(''retailer_id'', JInt 1), (''items'', JList [line 1 10, line 1 101])])
     = soap_shop"
proof -
  have f: "fst (api_place_order soap_shop 5
                 [(''retailer_id'', JInt 1), (''items'', JList [line 1 10, line 1 101])])
            = Inl (InsufficientStock (JStr ''Soap'') 100)"
    by (simp add: eval_defs)
  from place_order_failure_keeps_store [OF f] f show ?thesis by simp
qed

subsection \<open>Writes to one row\<close>

lemma get_order_set_status:
  "find (\<lambda>ord. o_id ord = k) (set_status oid st os) =
     (if k = oid then map_option (\<lambda>ord. ord\<lparr>o_status := st\<rparr>) (find (\<lambda>ord. o_id ord = k) os)
      else find (\<lambda>ord. o_id ord = k) os)"
  by (induction os) (auto simp: set_status_def)

lemma filter_set_status:
  "filter (\<lambda>ord. o_id ord \<noteq> oid) (set_status oid st os) = filter (\<lambda>ord. o_id ord \<noteq> oid) os"
  by (induction os) (auto simp: set_status_def)

lemma forget_status_set_status:
  "map (\<lambda>ord. ord\<lparr>o_status := t\<rparr>) (set_status oid st os) = map (\<lambda>ord. ord\<lparr>o_status := t\<rparr>) os"
  by (induction os) (auto simp: set_status_def)




subsection \<open>Delivering an order\<close>

text \<open>
  Claim C10. \<^verbatim>\<open>deliver_order\<close> fails only when the order id does not exist or the
  status is \<^verbatim>\<open>deleted\<close>, and a failure leaves the store as it was. In every other case,
  an order that is already delivered included, it succeeds, the order has status
  \<^verbatim>\<open>delivered\<close> afterwards and nothing else is changed: products, retailers and order
  items are the same, the other orders are the same rows, and the rows of that id
  differ from before in their status at most.
\<close>

theorem deliver_order_effect:
  "fst (deliver_order s oid) =
     (case get_order s oid of
        None \<Rightarrow> Inl OrderNotFound
      | Some ord \<Rightarrow> if o_status ord = ''deleted'' then Inl OrderAlreadyDeleted else Inr ())
   \<and> (\<forall>e. fst (deliver_order s oid) = Inl e \<longrightarrow> snd (deliver_order s oid) = s)
   \<and> (let s' = snd (deliver_order s oid) in
        products s' = products s \<and> retailers s' = retailers s \<and> order_items s' = order_items s
        \<and> filter (\<lambda>ord. o_id ord \<noteq> oid) (orders s') = filter (\<lambda>ord. o_id ord \<noteq> oid) (orders s)
        \<and> map (\<lambda>ord. ord\<lparr>o_status := []\<rparr>) (orders s') = map (\<lambda>ord. ord\<lparr>o_status := []\<rparr>) (orders s))
   \<and> (\<forall>ord. get_order s oid = Some ord \<and> o_status ord \<noteq> ''deleted'' \<longrightarrow>
        get_order (snd (deliver_order s oid)) oid = Some (ord\<lparr>o_status := ''delivered''\<rparr>))"
  by (simp add: deliver_order_def get_order_def get_order_set_status filter_set_status
      forget_status_set_status split: option.splits)

theorem deliver_order_effect_witness:
  "fst (deliver_order delivered_shop 1) = Inr ()
   \<and> get_order (snd (deliver_order delivered_shop 1)) 1 =
       Some \<lparr>o_id = 1, o_retailer_id = Some 1, o_date = 5, o_grand_total = 150,
             o_total_items = 10, o_status = ''delivered''\<rparr>
   \<and> products (snd (deliver_order delivered_shop 1)) = products delivered_shop
   \<and> fst (deliver_order deleted_shop 1) = Inl OrderAlreadyDeleted
   \<and> snd (deliver_order deleted_shop 1) = deleted_shop"
proof -
  have g: "get_order delivered_shop 1 =
             Some \<lparr>o_id = 1, o_retailer_id = Some 1, o_date = 5, o_grand_total = 150,
                   o_total_items = 10, o_status = ''delivered''\<rparr>"
    by (simp add: delivered_shop_def order_of_ten_def eval_defs)
  have h: "get_order deleted_shop 1 =
             Some \<lparr>o_id = 1, o_retailer_id = Some 1, o_date = 5, o_grand_total = 150,
                   o_total_items = 10, o_status = ''deleted''\<rparr>"
    by (simp add: deleted_shop_def order_of_ten_def eval_defs)
  from deliver_order_effect [of delivered_shop 1] deliver_order_effect [of deleted_shop 1] g h
  show ?thesis
    by (simp add: Let_def)
qed

subsection \<open>Restocking\<close>



subsection \<open>Deleting a deleted order\<close>

text \<open>
  Claim C7. Deleting an order whose status is already \<^verbatim>\<open>deleted\<close> fails with the
  "Already deleted" response (HTTP 400) and leaves the whole store, all stocks and the
  order itself, as it was: stock is not restored a second time.
\<close>

theorem delete_deleted_order:
  "get_order s oid = Some ord \<Longrightarrow> o_status ord = ''deleted'' \<Longrightarrow>
   delete_order s oid = (Inl AlreadyDeleted, s) \<and> http_status AlreadyDeleted = 400"
  by (simp add: delete_order_def)

theorem delete_deleted_order_witness:
  "delete_order deleted_shop 1 = (Inl AlreadyDeleted, deleted_shop)
   \<and> map p_stock (products deleted_shop) = [100]"
proof -
  have h: "get_order deleted_shop 1 =
             Some \<lparr>o_id = 1, o_retailer_id = Some 1, o_date = 5, o_grand_total = 150,
                   o_total_items = 10, o_status = ''deleted''\<rparr>"
    by (simp add: deleted_shop_def order_of_ten_def eval_defs)
  have k: "map p_stock (products deleted_shop) = [100]"
    by (simp add: deleted_shop_def order_of_ten_def eval_defs)
  from delete_deleted_order [OF h] k show ?thesis by simp
qed

subsection \<open>The retailer reference of an order\<close>

lemma validate_items_retailers [simp]:
  "validate_items (s\<lparr>retailers := rs\<rparr>) its g t prods = validate_items s its g t prods"
  by (induction its arbitrary: g t prods)
     (auto simp: get_product_def split: sum.splits option.splits)

lemma write_items_retailers [simp]:
  "write_items k prods (s\<lparr>retailers := rs\<rparr>) = (write_items k prods s)\<lparr>retailers := rs\<rparr>"
proof (induction prods arbitrary: s)
  case Nil
  show ?case by simp
next
  case (Cons a prods)
  obtain pid p qty where a: "a = (pid, p, qty)" by (cases a) auto
  let ?ps = "update_product (p_id p) (\<lambda>r. r\<lparr>p_stock := p_stock r - qty\<rparr>) (products s)"
  let ?it = "\<lparr>oi_id = next_id (map oi_id (order_items s)), oi_order_id = k,
              oi_product_id = p_id p, oi_product_name = p_name p,
              oi_cp = p_cp p, oi_sp = p_sp p, oi_mrp = p_mrp p,
              oi_qty = qty, oi_item_total = p_sp p * of_int qty\<rparr>"
  let ?s1 = "s\<lparr>products := ?ps, order_items := order_items s @ [?it]\<rparr>"
  have swap: "s\<lparr>retailers := rs, products := ?ps, order_items := order_items s @ [?it]\<rparr>
                = ?s1\<lparr>retailers := rs\<rparr>"
    by (cases s) simp
  have "write_items k (a # prods) (s\<lparr>retailers := rs\<rparr>) = write_items k prods (?s1\<lparr>retailers := rs\<rparr>)"
    by (simp add: a swap)
  also have "\<dots> = (write_items k prods ?s1)\<lparr>retailers := rs\<rparr>"
    by (rule Cons.IH)
  also have "write_items k prods ?s1 = write_items k (a # prods) s"
    by (simp add: a)
  finally show ?case .
qed

lemma retailers_orders_swap:
  "s\<lparr>retailers := rs, orders := os\<rparr> = s\<lparr>orders := os, retailers := rs\<rparr>"
  by (cases s) simp

text \<open>
  The route never reads the retailers table: with any other table of retailers the
  response is the same and the other tables end up the same.
\<close>

lemma place_order_ignores_retailers:
  "api_place_order (s\<lparr>retailers := rs\<rparr>) now data =
     (fst (api_place_order s now data), (snd (api_place_order s now data))\<lparr>retailers := rs\<rparr>)"
  by (auto simp: api_place_order_def Let_def retailers_orders_swap
      split: if_splits option.splits json.splits sum.splits pyexc.splits prod.splits)

subsection \<open>Defects\<close>

text \<open>
  Claim C1 fails on a request that lists one product twice. The totals are summed over
  every line of the payload, but \<^verbatim>\<open>prods\<close> is keyed by product id, so one order item
  is written, for the last quantity: the order has grand total 45 and 3 items, its
  order item has item total 30 and quantity 2, and the stock goes down by 2.
\<close>

theorem place_order_duplicate_lines:
  "(let s' = snd (api_place_order soap_shop 5
                    [(''retailer_id'', JInt 1), (''items'', JList [line 1 1, line 1 2])])
    in map o_grand_total (orders s') = [45]
       \<and> sum_list (map oi_item_total (items_of s' 1)) = 30
       \<and> map o_total_items (orders s') = [3]
       \<and> sum_list (map oi_qty (items_of s' 1)) = 2
       \<and> map p_stock (products s') = [98])"
  by (simp add: eval_defs)

theorem place_order_duplicate_lines_witness:
  "(let s' = snd (api_place_order soap_shop 5
                    [(''retailer_id'', JInt 1), (''items'', JList [line 1 1, line 1 2])])
    in map o_grand_total (orders s') \<noteq> [sum_list (map oi_item_total (items_of s' 1))]
       \<and> map o_total_items (orders s') \<noteq> [sum_list (map oi_qty (items_of s' 1))])"
  using place_order_duplicate_lines by (simp add: Let_def)

text \<open>
  Claim C2 fails after \<^verbatim>\<open>api_add_product\<close>: the stock of the request is stored without
  a check of its sign.
\<close>

theorem add_product_negative_stock:
  "map p_stock
     (products (snd (api_add_product empty_store
                       [(''name'', JStr ''Soap''), (''stock'', JInt (- 5))]))) = [- 5]"
  by (simp add: eval_defs)

text \<open>
  Claim C5 fails on an empty list of items: the guard asks for a list and not for a
  line in it, so an order without items and with totals 0 is created.
\<close>

theorem place_order_empty_items:
  "api_place_order soap_shop 5 [(''retailer_id'', JInt 1), (''items'', JList [])] =
     (Inr 1, soap_shop\<lparr>orders := [\<lparr>o_id = 1, o_retailer_id = Some 1, o_date = 5,
                                     o_grand_total = 0, o_total_items = 0,
                                     o_status = ''pending''\<rparr>]\<rparr>)"
  by (simp add: eval_defs)

theorem place_order_empty_items_witness:
  "fst (api_place_order soap_shop 5 [(''retailer_id'', JInt 1), (''items'', JList [])]) = Inr 1
   \<and> length (orders (snd (api_place_order soap_shop 5
                             [(''retailer_id'', JInt 1), (''items'', JList [])]))) = 1"
  using place_order_empty_items by simp

text \<open>
  Claim C6 fails on a retailer id that no retailer has. The schema declares
  \<^verbatim>\<open>Order.retailer_id\<close> a foreign key of \<^verbatim>\<open>retailer.id\<close> and the route mandates a retailer,
  but it checks only that the reference is present and converts with \<^verbatim>\<open>int\<close>: the shop
  has retailer 1 alone, and the order for retailer 999 is created and the stock taken.
\<close>

theorem place_order_unknown_retailer:
  "map r_id (retailers soap_shop) = [1]
   \<and> get_retailer soap_shop 999 = None
   \<and> api_place_order soap_shop 5 [(''retailer_id'', JInt 999), (''items'', JList [line 1 10])] =
       (Inr 1,
        soap_shop
          \<lparr>products := [\<lparr>p_id = 1, p_name = JStr ''Soap'', p_cp = 10, p_sp = 15, p_mrp = 20,
                          p_stock = 90\<rparr>],
           orders := [\<lparr>o_id = 1, o_retailer_id = Some 999, o_date = 5, o_grand_total = 150,
                        o_total_items = 10, o_status = ''pending''\<rparr>],
           order_items := [\<lparr>oi_id = 1, oi_order_id = 1, oi_product_id = 1,
                             oi_product_name = JStr ''Soap'', oi_cp = 10, oi_sp = 15, oi_mrp = 20,
                             oi_qty = 10, oi_item_total = 150\<rparr>]\<rparr>)"
  by (simp add: eval_defs)

theorem place_order_unknown_retailer_witness:
  "fst (api_place_order soap_shop 5 [(''retailer_id'', JInt 999), (''items'', JList [line 1 10])])
     = Inr 1
   \<and> map o_retailer_id
         (orders (snd (api_place_order soap_shop 5
                         [(''retailer_id'', JInt 999), (''items'', JList [line 1 10])])))
     = [Some 999]
   \<and> get_retailer soap_shop 999 = None"
  using place_order_unknown_retailer by simp

subsection \<open>Listing and export\<close>

lemma sorted_by_date_desc: "sorted_wrt (\<lambda>a b. o_date b \<le> o_date a) (by_date_desc os)"
proof -
  have "sorted (map (\<lambda>ord. - o_date ord) (by_date_desc os))"
    unfolding by_date_desc_def by (rule sorted_sort_key)
  then show ?thesis
    by (simp add: sorted_wrt_map)
qed

text \<open>
  Claim C9. The active order listing holds exactly the views of the orders whose status
  is not \<^verbatim>\<open>deleted\<close>, each as often as the table holds the order, and none of its
  entries has status \<^verbatim>\<open>deleted\<close>; it is sorted by date, latest first. The export
  holds the rows of the items of every order, whatever its status, \<^verbatim>\<open>deleted\<close>
  included.
\<close>

theorem order_listings:
  "mset (api_orders s) =
     mset (map (order_view_of s) (filter (\<lambda>ord. o_status ord \<noteq> ''deleted'') (orders s)))
   \<and> (\<forall>v \<in> set (api_orders s). ov_status v \<noteq> ''deleted'')
   \<and> sorted_wrt (\<lambda>a b. ov_date b \<le> ov_date a) (api_orders s)
   \<and> set (export_csv s) =
       (\<Union>ord \<in> set (orders s). export_row_of s ord ` set (items_of s (o_id ord)))"
proof (intro conjI)
  show "mset (api_orders s) =
     mset (map (order_view_of s) (filter (\<lambda>ord. o_status ord \<noteq> ''deleted'') (orders s)))"
    by (simp add: api_orders_def by_date_desc_def)
  show "\<forall>v \<in> set (api_orders s). ov_status v \<noteq> ''deleted''"
    by (auto simp: api_orders_def by_date_desc_def order_view_of_def Let_def)
  have "sorted_wrt (\<lambda>a b. o_date b \<le> o_date a)
          (by_date_desc (filter (\<lambda>ord. o_status ord \<noteq> ''deleted'') (orders s)))"
    by (rule sorted_by_date_desc)
  then show "sorted_wrt (\<lambda>a b. ov_date b \<le> ov_date a) (api_orders s)"
    by (simp add: api_orders_def sorted_wrt_map order_view_of_def Let_def)
  show "set (export_csv s) =
       (\<Union>ord \<in> set (orders s). export_row_of s ord ` set (items_of s (o_id ord)))"
    by (simp add: export_csv_def by_date_desc_def)
qed

lemma two_orders_shop_eq:
  "two_orders_shop =
     \<lparr>products = [\<lparr>p_id = 1, p_name = JStr ''Soap'', p_cp = 10, p_sp = 15, p_mrp = 20,
                    p_stock = 97\<rparr>],
      retailers = [\<lparr>r_id = 1, r_shop_name = JStr ''ABC Store'', r_address = JStr [],
                     r_phone = JStr []\<rparr>],
      orders = [\<lparr>o_id = 1, o_retailer_id = Some 1, o_date = 5, o_grand_total = 150,
                  o_total_items = 10, o_status = ''deleted''\<rparr>,
                \<lparr>o_id = 2, o_retailer_id = Some 1, o_date = 7, o_grand_total = 45,
                  o_total_items = 3, o_status = ''pending''\<rparr>],
      order_items = [\<lparr>oi_id = 1, oi_order_id = 1, oi_product_id = 1,
                       oi_product_name = JStr ''Soap'', oi_cp = 10, oi_sp = 15, oi_mrp = 20,
                       oi_qty = 10, oi_item_total = 150\<rparr>,
                     \<lparr>oi_id = 2, oi_order_id = 2, oi_product_id = 1,
                       oi_product_name = JStr ''Soap'', oi_cp = 10, oi_sp = 15, oi_mrp = 20,
                       oi_qty = 3, oi_item_total = 45\<rparr>]\<rparr>"
  by (simp add: two_orders_shop_def deleted_shop_def order_of_ten_def eval_defs)

theorem order_listings_witness:
  "map ov_id (api_orders two_orders_shop) = [2]
   \<and> (\<lambda>r. (x_order_id r, x_status r)) ` set (export_csv two_orders_shop)
       = {(1, ''deleted''), (2, ''pending'')}"
proof -
  have a: "map (order_view_of two_orders_shop)
             (filter (\<lambda>ord. o_status ord \<noteq> ''deleted'') (orders two_orders_shop)) =
           [\<lparr>ov_id = 2, ov_date = 7, ov_retailer_id = Some 1, ov_retailer = JStr ''ABC Store'',
             ov_grand_total = 45, ov_total_items = 3, ov_status = ''pending'',
             ov_items = [\<lparr>iv_product_name = JStr ''Soap'', iv_qty = 3, iv_sp = 15,
                          iv_item_total = 45\<rparr>]\<rparr>]"
    by (simp add: two_orders_shop_eq order_view_of_def get_retailer_def items_of_def
        item_view_of_def)
  have b: "(\<lambda>r. (x_order_id r, x_status r)) `
             (\<Union>ord \<in> set (orders two_orders_shop).
                export_row_of two_orders_shop ord ` set (items_of two_orders_shop (o_id ord)))
           = {(1, ''deleted''), (2, ''pending'')}"
    by (auto simp: two_orders_shop_eq export_row_of_def get_retailer_def items_of_def)
  from order_listings [of two_orders_shop] a b show ?thesis
    by (auto simp: mset_single_iff_right dest!: arg_cong [where f = "image_mset ov_id"])
qed

subsection \<open>Placing an order and deleting it\<close>

lemma fold_max_ge: "a \<le> fold max ids (a :: int)"
  by (induction ids arbitrary: a) (auto intro: order_trans [OF max.cobounded2])

lemma fold_max_mem: "k \<in> set ids \<Longrightarrow> k \<le> fold max ids (a :: int)"
proof (induction ids arbitrary: a)
  case Nil
  then show ?case by simp
next
  case (Cons x ids)
  show ?case
  proof (cases "k = x")
    case True
    have "x \<le> max x a" by simp
    also have "\<dots> \<le> fold max ids (max x a)" by (rule fold_max_ge)
    finally show ?thesis using True by simp
  next
    case False
    with Cons.prems have "k \<in> set ids" by simp
    then show ?thesis by (simp add: Cons.IH)
  qed
qed

lemma next_id_fresh: "next_id ids \<notin> set ids"
proof
  assume "next_id ids \<in> set ids"
  then have "next_id ids \<le> fold max ids 0" by (rule fold_max_mem)
  then show False by (simp add: next_id_def)
qed

lemma write_items_orders [simp]: "orders (write_items k prods s) = orders s"
  by (induction k prods s rule: write_items.induct) simp_all

lemma write_items_products:
  "products (write_items k prods s) =
     map (\<lambda>p. p\<lparr>p_stock := p_stock p - held_qty prods (p_id p)\<rparr>) (products s)"
proof (induction k prods s rule: write_items.induct)
  case (1 order_id s)
  show ?case by (simp add: held_qty_def)
next
  case (2 order_id pid p qty rest s)
  have "products (write_items order_id ((pid, p, qty) # rest) s) =
          map (\<lambda>r. r\<lparr>p_stock := p_stock r - held_qty rest (p_id r)\<rparr>)
            (update_product (p_id p) (\<lambda>r. r\<lparr>p_stock := p_stock r - qty\<rparr>) (products s))"
    by (simp add: 2)
  also have "\<dots> = map (\<lambda>r. r\<lparr>p_stock := p_stock r - held_qty ((pid, p, qty) # rest) (p_id r)\<rparr>)
                      (products s)"
    by (simp add: update_product_def held_qty_def)
  finally show ?case .
qed

lemma write_items_order_items:
  "\<exists>new. order_items (write_items k prods s) = order_items s @ new
         \<and> (\<forall>it \<in> set new. oi_order_id it = k)
         \<and> (\<forall>j. restored_qty new j = held_qty prods j)"
proof (induction k prods s rule: write_items.induct)
  case (1 order_id s)
  show ?case by (simp add: held_qty_def restored_qty_def)
next
  case (2 order_id pid p qty rest s)
  let ?it = "\<lparr>oi_id = next_id (map oi_id (order_items s)), oi_order_id = order_id,
              oi_product_id = p_id p, oi_product_name = p_name p,
              oi_cp = p_cp p, oi_sp = p_sp p, oi_mrp = p_mrp p,
              oi_qty = qty, oi_item_total = p_sp p * of_int qty\<rparr>"
  from 2 obtain new where
    n: "order_items (write_items order_id ((pid, p, qty) # rest) s) = (order_items s @ [?it]) @ new"
      "\<forall>it \<in> set new. oi_order_id it = order_id"
      "\<forall>j. restored_qty new j = held_qty rest j"
    by auto
  have "order_items (write_items order_id ((pid, p, qty) # rest) s) = order_items s @ (?it # new)"
    using n(1) by simp
  moreover have "\<forall>it \<in> set (?it # new). oi_order_id it = order_id"
    using n(2) by simp
  moreover have "\<forall>j. restored_qty (?it # new) j = held_qty ((pid, p, qty) # rest) j"
    using n(3) by (simp add: restored_qty_def held_qty_def)
  ultimately show ?case by blast
qed

lemma update_product_absent:
  "find (\<lambda>q. p_id q = k) ps = None \<Longrightarrow> update_product k f ps = ps"
  by (induction ps) (auto simp: update_product_def split: if_splits)

lemma restore_stock_others [simp]:
  "orders (restore_stock items s) = orders s"
  "order_items (restore_stock items s) = order_items s"
  "retailers (restore_stock items s) = retailers s"
  by (induction items s rule: restore_stock.induct; simp split: option.splits)+

lemma restore_step_products:
  "products (case get_product s k of None \<Rightarrow> s
             | Some p \<Rightarrow> s\<lparr>products := update_product (p_id p) f (products s)\<rparr>)
     = update_product k f (products s)"
proof (cases "get_product s k")
  case None
  then show ?thesis by (simp add: get_product_def update_product_absent)
next
  case (Some p)
  then have "p_id p = k"
    by (auto simp: get_product_def find_Some_iff)
  with Some show ?thesis by simp
qed

lemma restore_stock_products:
  "products (restore_stock items s) =
     map (\<lambda>p. p\<lparr>p_stock := p_stock p + restored_qty items (p_id p)\<rparr>) (products s)"
proof (induction items s rule: restore_stock.induct)
  case (1 s)
  show ?case by (simp add: restored_qty_def)
next
  case (2 it items s)
  let ?s1 = "case get_product s (oi_product_id it) of None \<Rightarrow> s
             | Some p \<Rightarrow> s\<lparr>products := update_product (p_id p)
                                (\<lambda>r. r\<lparr>p_stock := p_stock r + oi_qty it\<rparr>) (products s)\<rparr>"
  have "products (restore_stock (it # items) s) =
          map (\<lambda>p. p\<lparr>p_stock := p_stock p + restored_qty items (p_id p)\<rparr>) (products ?s1)"
    using 2 by simp
  also have "products ?s1 =
      update_product (oi_product_id it) (\<lambda>r. r\<lparr>p_stock := p_stock r + oi_qty it\<rparr>) (products s)"
    by (rule restore_step_products)
  also have "map (\<lambda>p. p\<lparr>p_stock := p_stock p + restored_qty items (p_id p)\<rparr>) \<dots> =
      map (\<lambda>p. p\<lparr>p_stock := p_stock p + restored_qty (it # items) (p_id p)\<rparr>) (products s)"
    by (simp add: update_product_def restored_qty_def)
  finally show ?case .
qed


lemma place_order_success:
  assumes "api_place_order s now data = (Inr oid, s')"
  shows "\<exists>rid gt ti prods.
           oid = next_id (map o_id (orders s)) \<and>
           s' = write_items oid prods
                  (s\<lparr>orders := orders s @
                       [\<lparr>o_id = oid, o_retailer_id = Some rid, o_date = now, o_grand_total = gt,
                         o_total_items = ti, o_status = ''pending''\<rparr>]\<rparr>)"
  using assms
  by (auto simp: api_place_order_def Let_def
      split: if_splits option.splits json.splits sum.splits pyexc.splits prod.splits)

lemma find_fresh_append:
  "\<forall>x \<in> set xs. \<not> P x \<Longrightarrow> P y \<Longrightarrow> find P (xs @ [y]) = Some y"
  by (induction xs) auto

lemma filter_fresh_append:
  "\<forall>x \<in> set xs. \<not> P x \<Longrightarrow> \<forall>y \<in> set ys. P y \<Longrightarrow> filter P (xs @ ys) = ys"
  by (induction xs) (auto simp: filter_id_conv)

text \<open>
  Claim C4. In a store whose order items all belong to orders of the table, a
  placement that succeeds followed at once by the deletion of the new order: the
  deletion succeeds and the products table is what it was before the placement, so
  the stock of every product, involved or not, is back at its old value.
\<close>

theorem place_then_delete_restores_stock:
  assumes fk: "order_items_fk s"
    and ok: "api_place_order s now data = (Inr oid, s')"
  shows "fst (delete_order s' oid) = Inr () \<and> products (snd (delete_order s' oid)) = products s"
proof -
  from place_order_success [OF ok] obtain rid gt ti prods where
    oid: "oid = next_id (map o_id (orders s))" and
    s': "s' = write_items oid prods
                (s\<lparr>orders := orders s @
                     [\<lparr>o_id = oid, o_retailer_id = Some rid, o_date = now, o_grand_total = gt,
                       o_total_items = ti, o_status = ''pending''\<rparr>]\<rparr>)"
    by blast
  let ?ord = "\<lparr>o_id = oid, o_retailer_id = Some rid, o_date = now, o_grand_total = gt,
               o_total_items = ti, o_status = ''pending''\<rparr>"
  let ?s1 = "s\<lparr>orders := orders s @ [?ord]\<rparr>"
  have fresh: "oid \<notin> set (map o_id (orders s))"
    unfolding oid by (rule next_id_fresh)
  have no_order: "\<forall>x \<in> set (orders s). \<not> o_id x = oid"
    using fresh by auto
  have get: "get_order s' oid = Some ?ord"
    by (simp add: get_order_def s' find_fresh_append [OF no_order])
  obtain new where
    new: "order_items s' = order_items s @ new"
      "\<forall>it \<in> set new. oi_order_id it = oid"
      "\<forall>j. restored_qty new j = held_qty prods j"
    using write_items_order_items [of oid prods ?s1] unfolding s' by auto
  have old: "\<forall>it \<in> set (order_items s). oi_order_id it \<noteq> oid"
    using fk fresh by (auto simp: order_items_fk_def)
  have old': "\<forall>it \<in> set (order_items s). \<not> oi_order_id it = oid"
    using old by simp
  have items: "items_of s' oid = new"
    by (simp only: items_of_def new(1) filter_fresh_append [OF old' new(2)])
  have prods': "products s' = map (\<lambda>p. p\<lparr>p_stock := p_stock p - held_qty prods (p_id p)\<rparr>) (products s)"
    by (simp add: s' write_items_products)
  have "products (restore_stock new s') = products s"
    by (simp add: restore_stock_products prods' new(3) o_def map_idI)
  with get items show ?thesis
    by (simp add: delete_order_def Let_def)
qed


theorem place_then_delete_restores_stock_witness:
  "fst (delete_order
          (snd (api_place_order two_orders_shop 9
                  [(''retailer_id'', JInt 1), (''items'', JList [line 1 1, line 1 2])])) 3) = Inr ()
   \<and> products (snd (delete_order
          (snd (api_place_order two_orders_shop 9
                  [(''retailer_id'', JInt 1), (''items'', JList [line 1 1, line 1 2])])) 3))
       = products two_orders_shop"
proof -
  let ?d = "[(''retailer_id'', JInt 1), (''items'', JList [line 1 1, line 1 2])]"
  have fk: "order_items_fk two_orders_shop"
    by (simp add: order_items_fk_def two_orders_shop_eq)
  have ok: "api_place_order two_orders_shop 9 ?d = (Inr 3, snd (api_place_order two_orders_shop 9 ?d))"
    by (simp add: two_orders_shop_eq api_place_order_def line_def dict_get_def item_fields_def
        get_product_def next_id_def Let_def)
  from place_then_delete_restores_stock [OF fk ok] show ?thesis .
qed

text \<open>
  The foreign key holds in the empty store and every route keeps it, so it holds in
  every store that the routes can reach.
\<close>

lemma order_items_fk_empty: "order_items_fk empty_store"
  by (simp add: order_items_fk_def empty_store_def)

lemma set_status_ids [simp]: "map o_id (set_status k st os) = map o_id os"
  by (induction os) (auto simp: set_status_def)

lemma write_items_fk:
  "order_items_fk s \<Longrightarrow> k \<in> set (map o_id (orders s)) \<Longrightarrow> order_items_fk (write_items k prods s)"
proof -
  assume fk: "order_items_fk s" and k: "k \<in> set (map o_id (orders s))"
  obtain new where
    new: "order_items (write_items k prods s) = order_items s @ new"
      "\<forall>it \<in> set new. oi_order_id it = k"
    using write_items_order_items [of k prods s] by auto
  show ?thesis
    using fk k new by (auto simp: order_items_fk_def)
qed

lemma order_items_fk_place_order: "order_items_fk s \<Longrightarrow> order_items_fk (snd (api_place_order s now data))"
proof (cases "fst (api_place_order s now data)")
  case (Inl e)
  assume "order_items_fk s"
  moreover have "snd (api_place_order s now data) = s"
    using Inl by (auto simp: api_place_order_def Let_def
        split: if_splits option.splits json.splits sum.splits pyexc.splits prod.splits)
  ultimately show ?thesis by simp
next
  case (Inr oid)
  assume fk: "order_items_fk s"
  from Inr have "api_place_order s now data = (Inr oid, snd (api_place_order s now data))"
    by (metis prod.collapse)
  from place_order_success [OF this] obtain rid gt ti prods where
    s': "snd (api_place_order s now data) = write_items oid prods
                (s\<lparr>orders := orders s @
                     [\<lparr>o_id = oid, o_retailer_id = Some rid, o_date = now, o_grand_total = gt,
                       o_total_items = ti, o_status = ''pending''\<rparr>]\<rparr>)"
    by blast
  show ?thesis
    unfolding s' using fk by (intro write_items_fk) (auto simp: order_items_fk_def)
qed

lemma order_items_fk_delete_order: "order_items_fk s \<Longrightarrow> order_items_fk (snd (delete_order s oid))"
  by (auto simp: delete_order_def order_items_fk_def Let_def split: option.splits
      simp flip: set_map)

lemma order_items_fk_deliver_order: "order_items_fk s \<Longrightarrow> order_items_fk (snd (deliver_order s oid))"
  by (auto simp: deliver_order_def order_items_fk_def Let_def split: option.splits
      simp flip: set_map)

lemma order_items_fk_add_product: "order_items_fk s \<Longrightarrow> order_items_fk (snd (api_add_product s data))"
  by (auto simp: api_add_product_def order_items_fk_def Let_def split: sum.splits)

lemma order_items_fk_add_retailer: "order_items_fk s \<Longrightarrow> order_items_fk (snd (api_add_retailer s data))"
  by (auto simp: api_add_retailer_def order_items_fk_def Let_def)

lemma order_items_fk_restock: "order_items_fk s \<Longrightarrow> order_items_fk (snd (api_update_product_stock s data))"
  by (auto simp: api_update_product_stock_def order_items_fk_def Let_def split: sum.splits option.splits)

end
